theory Spec2Isabelle
  imports Main
begin

section \<open>The purchase ledger of \<open>billing.service.ts\<close>\<close>

text \<open>
  The source file holds two versions of the module, one after the other. The first has
  only the three logging callbacks; the second adds the purchase store and is the one
  modelled here.
\<close>

text \<open>
  The TypeScript type \<open>PlanId = "pro" | "master"\<close> is a closed union of two string
  literals, and the \<open>status\<close> field of a purchase is the union
  \<open>"active" | "canceled" | "revoked"\<close>. Both are datatypes here.
\<close>

datatype PlanId = Pro | Master

datatype Status = Active | Canceled | Revoked

text \<open>
  The interface \<open>Purchase\<close>, field by field (the source spells the first one
  \<open>oderId\<close>). \<open>purchasedAt\<close> is a \<open>Date\<close>: milliseconds since the epoch.
\<close>

record Purchase =
  oderId :: string
  customerId :: string
  productId :: string
  planId :: PlanId
  purchasedAt :: int
  status :: Status

text \<open>
  The two module-level maps: \<open>purchaseStore\<close> (customer id to the array of its
  purchases) and \<open>productToPlanMap\<close> (product id to plan). They are the whole mutable
  state of the module; every function below takes the state and, when the source mutates
  it, returns the new one. Console output is not part of the state.
\<close>

record BillingState =
  purchaseStore :: "string \<rightharpoonup> Purchase list"
  productToPlanMap :: "string \<rightharpoonup> PlanId"

definition initialState :: BillingState where
  "initialState = \<lparr>purchaseStore = Map.empty, productToPlanMap = Map.empty\<rparr>"

text \<open>
  \<open>process.env\<close> is a map from names to strings. A JavaScript string is truthy when
  it is defined and not empty.
\<close>

type_synonym Env = "string \<rightharpoonup> string"

fun truthy :: "string option \<Rightarrow> bool" where
  "truthy None = False"
| "truthy (Some v) = (v \<noteq> [])"

definition initProductPlanMapping :: "Env \<Rightarrow> BillingState \<Rightarrow> BillingState" where
  "initProductPlanMapping env s =
     (let proProductId = env ''POLAR_PRO_PRODUCT_ID'';
          masterProductId = env ''POLAR_MASTER_PRODUCT_ID'';
          s1 = (if truthy proProductId
                then s\<lparr>productToPlanMap := (productToPlanMap s)(the proProductId \<mapsto> Pro)\<rparr>
                else s);
          s2 = (if truthy masterProductId
                then s1\<lparr>productToPlanMap := (productToPlanMap s1)(the masterProductId \<mapsto> Master)\<rparr>
                else s1)
      in s2)"

text \<open>\<open>purchaseStore.get(customerId) || []\<close>, which is also \<open>getCustomerPurchases\<close>.\<close>

definition getCustomerPurchases :: "BillingState \<Rightarrow> string \<Rightarrow> Purchase list" where
  "getCustomerPurchases s cid = (case purchaseStore s cid of Some ps \<Rightarrow> ps | None \<Rightarrow> [])"

text \<open>The predicate \<open>(p) => p.planId === planId && p.status === "active"\<close>.\<close>

definition activeFor :: "PlanId \<Rightarrow> Purchase \<Rightarrow> bool" where
  "activeFor plan p = (planId p = plan \<and> status p = Active)"

text \<open>
  \<open>recordPurchase\<close>: an unknown product returns early; so does an already active plan;
  otherwise the new record is pushed on the customer's array and the array is stored.
  \<open>now\<close> is the value of \<open>new Date()\<close>.
\<close>

definition recordPurchase ::
  "BillingState \<Rightarrow> string \<Rightarrow> string \<Rightarrow> string \<Rightarrow> int \<Rightarrow> BillingState" where
  "recordPurchase s cid pid orderId now =
     (case productToPlanMap s pid of
        None \<Rightarrow> s
      | Some plan \<Rightarrow>
          (let purchase = \<lparr>oderId = orderId, customerId = cid, productId = pid,
                           planId = plan, purchasedAt = now, status = Active\<rparr>;
               existingPurchases = getCustomerPurchases s cid;
               alreadyPurchased = list_ex (activeFor plan) existingPurchases
           in if alreadyPurchased then s
              else s\<lparr>purchaseStore := (purchaseStore s)(cid \<mapsto> existingPurchases @ [purchase])\<rparr>))"

definition getPurchasedPlanIds :: "BillingState \<Rightarrow> string \<Rightarrow> PlanId list" where
  "getPurchasedPlanIds s cid =
     map planId (filter (\<lambda>p. status p = Active) (getCustomerPurchases s cid))"

definition hasPurchasedPlan :: "BillingState \<Rightarrow> string \<Rightarrow> PlanId \<Rightarrow> bool" where
  "hasPurchasedPlan s cid plan = list_ex (activeFor plan) (getCustomerPurchases s cid)"

text \<open>
  \<open>revokePurchase\<close>: \<open>find\<close> returns the first purchase that is active for the plan, and
  the source then assigns to its \<open>status\<close> field. The object found is the element of the
  stored array at the position of the first match, so the assignment is an update of the
  stored array at that index. When nothing is found (also for a customer without an
  entry, where the array is a fresh \<open>[]\<close>) nothing is written.
\<close>

definition firstIndex :: "('a \<Rightarrow> bool) \<Rightarrow> 'a list \<Rightarrow> nat" where
  "firstIndex P xs = length (takeWhile (\<lambda>x. \<not> P x) xs)"

definition revokePurchase :: "BillingState \<Rightarrow> string \<Rightarrow> PlanId \<Rightarrow> BillingState" where
  "revokePurchase s cid plan =
     (let purchases = getCustomerPurchases s cid
      in case find (activeFor plan) purchases of
           None \<Rightarrow> s
         | Some purchase \<Rightarrow>
             s\<lparr>purchaseStore := (purchaseStore s)
                  (cid \<mapsto> purchases[firstIndex (activeFor plan) purchases :=
                                        purchase\<lparr>status := Revoked\<rparr>])\<rparr>)"

text \<open>
  The three event callbacks. \<open>onSubscriptionActive\<close> records the purchase only when both
  optional arguments are given and truthy; the other two only write to the console.
\<close>

definition onSubscriptionActive ::
  "BillingState \<Rightarrow> string \<Rightarrow> string option \<Rightarrow> string option \<Rightarrow> int \<Rightarrow> BillingState" where
  "onSubscriptionActive s cid pid subscriptionId now =
     (if truthy pid \<and> truthy subscriptionId
      then recordPurchase s cid (the pid) (the subscriptionId) now
      else s)"

definition onSubscriptionCanceled :: "BillingState \<Rightarrow> string \<Rightarrow> BillingState" where
  "onSubscriptionCanceled s cid = s"

definition onSubscriptionRevoked :: "BillingState \<Rightarrow> string \<Rightarrow> BillingState" where
  "onSubscriptionRevoked s cid = s"

section \<open>The webhook endpoint of \<open>billing.webhook.ts\<close>\<close>

text \<open>
  The three Standard Webhooks headers the handler reads, each defaulting to the empty
  string (\<open>c.req.header(name) || ""\<close>).
\<close>

record WebhookHeaders =
  webhook_id :: string
  webhook_timestamp :: string
  webhook_signature :: string

record WebhookRequest =
  rawBody :: string
  reqHeaders :: "string \<rightharpoonup> string"

definition headerOrEmpty :: "WebhookRequest \<Rightarrow> string \<Rightarrow> string" where
  "headerOrEmpty req name = (case reqHeaders req name of Some v \<Rightarrow> v | None \<Rightarrow> [])"

text \<open>The fields of a validated event that the handler reads.\<close>

record PolarEvent =
  eventType :: string
  dataId :: string
  dataCustomerId :: string
  dataProductId :: string

text \<open>
  \<open>validateEvent\<close> belongs to the provider's SDK, not to this repository: it is a
  parameter of the handler. It returns the parsed event or throws, and the handler tells
  a \<open>WebhookVerificationError\<close> from any other exception.
\<close>

datatype ValidateFailure = WebhookVerificationError string | OtherError string

type_synonym Validator = "string \<Rightarrow> WebhookHeaders \<Rightarrow> string \<Rightarrow> ValidateFailure + PolarEvent"

datatype ResponseBody = TextBody string | JsonReceived bool | JsonError string | JsonUrl string

record Response =
  statusCode :: nat
  respBody :: ResponseBody

text \<open>
  The \<open>switch (event.type)\<close>, case by case in the source's order. Beside the state it
  returns the names of the billing-service callbacks it called. The call for
  \<open>subscription.active\<close> passes the customer id only, so the two optional parameters of
  \<open>onSubscriptionActive\<close> are \<open>undefined\<close>.
\<close>

definition routeEvent :: "BillingState \<Rightarrow> PolarEvent \<Rightarrow> int \<Rightarrow> BillingState \<times> string list" where
  "routeEvent s event now =
     (let t = eventType event in
      if t = ''subscription.active''
        then (onSubscriptionActive s (dataCustomerId event) None None now,
              [''onSubscriptionActive''])
      else if t = ''subscription.canceled''
        then (onSubscriptionCanceled s (dataCustomerId event), [''onSubscriptionCanceled''])
      else if t = ''subscription.created'' then (s, [])
      else if t = ''subscription.updated'' then (s, [])
      else if t = ''subscription.revoked'' then (s, [])
      else if t = ''checkout.created'' then (s, [])
      else if t = ''checkout.updated'' then (s, [])
      else if t = ''order.created'' then (s, [])
      else if t = ''order.paid'' then (s, [])
      else (s, []))"

text \<open>The event types that have a \<open>case\<close> of their own in the switch.\<close>

definition handledTypes :: "string list" where
  "handledTypes = [''subscription.active'', ''subscription.canceled'', ''subscription.created'',
     ''subscription.updated'', ''subscription.revoked'', ''checkout.created'',
     ''checkout.updated'', ''order.created'', ''order.paid'']"

text \<open>
  The handler of \<open>POST /api/webhooks/polar\<close>: a missing secret answers 500; a
  verification error 401; any other exception of the validator 400; otherwise the event is
  routed and acknowledged with \<open>{received: true}\<close> (status 200). The result is the new
  state, the response and the callbacks called.
\<close>

definition webhookHeadersOf :: "WebhookRequest \<Rightarrow> WebhookHeaders" where
  "webhookHeadersOf req = \<lparr>webhook_id = headerOrEmpty req ''webhook-id'',
                            webhook_timestamp = headerOrEmpty req ''webhook-timestamp'',
                            webhook_signature = headerOrEmpty req ''webhook-signature''\<rparr>"

definition billingWebhooks ::
  "Validator \<Rightarrow> Env \<Rightarrow> WebhookRequest \<Rightarrow> int \<Rightarrow> BillingState
     \<Rightarrow> BillingState \<times> Response \<times> string list" where
  "billingWebhooks validateEvent env req now s =
     (let webhookHeaders = webhookHeadersOf req;
          webhookSecret = env ''POLAR_WEBHOOK_SECRET''
      in if \<not> truthy webhookSecret
         then (s, \<lparr>statusCode = 500, respBody = TextBody ''Server misconfigured''\<rparr>, [])
         else (case validateEvent (rawBody req) webhookHeaders (the webhookSecret) of
                 Inl (WebhookVerificationError msg) \<Rightarrow>
                   (s, \<lparr>statusCode = 401, respBody = TextBody ''Invalid signature''\<rparr>, [])
               | Inl (OtherError msg) \<Rightarrow>
                   (s, \<lparr>statusCode = 400, respBody = TextBody ''Invalid webhook''\<rparr>, [])
               | Inr event \<Rightarrow>
                   (let (s', called) = routeEvent s event now
                    in (s', \<lparr>statusCode = 200, respBody = JsonReceived True\<rparr>, called))))"

section \<open>The checkout endpoint of \<open>billing.rpc.ts\<close>\<close>

definition isValidPlan :: "string \<Rightarrow> bool" where
  "isValidPlan plan = (plan = ''pro'' \<or> plan = ''master'')"

text \<open>After \<open>isValidPlan\<close> the string is one of the two literals of \<open>PlanId\<close>.\<close>

definition asPlanId :: "string \<Rightarrow> PlanId" where
  "asPlanId plan = (if plan = ''pro'' then Pro else Master)"

fun planName :: "PlanId \<Rightarrow> string" where
  "planName Pro = ''pro''"
| "planName Master = ''master''"

text \<open>A call either returns or throws; the message of the exception is kept.\<close>

datatype 'a Outcome = Returned 'a | Threw string

definition getProductId :: "Env \<Rightarrow> PlanId \<Rightarrow> string Outcome" where
  "getProductId env plan =
     (let pid = (if plan = Pro then env ''POLAR_PRO_PRODUCT_ID''
                 else env ''POLAR_MASTER_PRODUCT_ID'')
      in if \<not> truthy pid then Threw (''Missing product ID for plan: '' @ planName plan)
         else Returned (the pid))"

text \<open>
  The argument of \<open>polar.checkouts.create\<close>. The call goes to the provider: it is a
  parameter that returns the session's URL or throws, and every call made is listed in the
  result.
\<close>

record CheckoutParams =
  products :: "string list"
  externalCustomerId :: string
  successUrl :: string
  returnUrl :: string

type_synonym CheckoutsCreate = "CheckoutParams \<Rightarrow> string Outcome"

text \<open>
  The body of the request after \<open>c.req.json()\<close>: not JSON at all (the call throws), or a
  value whose \<open>planId\<close> is a string or anything else (\<open>isValidPlan\<close> is false of every
  value that is not one of the two strings).
\<close>

datatype RequestJson = InvalidJson | JsonPlanId "string option"

text \<open>
  \<open>createCheckout\<close>, the later of the two versions in the source: the one that imports
  \<open>hasPurchasedPlan\<close> and checks for an existing purchase. The customer is the constant
  \<open>"poc_user_001"\<close>. The result is the state (only read here), the response or the
  exception, and the calls made to the provider.
\<close>

definition createCheckout ::
  "CheckoutsCreate \<Rightarrow> Env \<Rightarrow> RequestJson \<Rightarrow> BillingState
     \<Rightarrow> BillingState \<times> Response Outcome \<times> CheckoutParams list" where
  "createCheckout checkoutsCreate env reqJson s =
     (case reqJson of
        InvalidJson \<Rightarrow> (s, Threw ''invalid JSON body'', [])
      | JsonPlanId field \<Rightarrow>
          (if \<not> (case field of Some p \<Rightarrow> isValidPlan p | None \<Rightarrow> False)
           then (s, Returned \<lparr>statusCode = 400, respBody = JsonError ''Invalid plan selected''\<rparr>, [])
           else
             (let plan = asPlanId (the field);
                  cid = ''poc_user_001''
              in if hasPurchasedPlan s cid plan
                 then (s, Returned \<lparr>statusCode = 400,
                                     respBody = JsonError ''You have already purchased this plan''\<rparr>, [])
                 else
                   (case getProductId env plan of
                      Threw e \<Rightarrow> (s, Threw e, [])
                    | Returned pid \<Rightarrow>
                        (let baseUrl = (if truthy (env ''FRONTEND_URL'') then the (env ''FRONTEND_URL'')
                                        else ''http://localhost:5173'');
                             params = \<lparr>products = [pid], externalCustomerId = cid,
                                        successUrl = baseUrl @ ''/payment?status=success&plan='' @ planName plan,
                                        returnUrl = baseUrl @ ''/payment?status=cancelled&plan='' @ planName plan\<rparr>
                         in case checkoutsCreate params of
                              Threw e \<Rightarrow> (s, Threw e, [params])
                            | Returned url \<Rightarrow>
                                (s, Returned \<lparr>statusCode = 200, respBody = JsonUrl url\<rparr>, [params]))))))"

section \<open>The invariant and the operations of the ledger\<close>

text \<open>The number of records of a customer that are active for a plan.\<close>

definition activeCount :: "BillingState \<Rightarrow> string \<Rightarrow> PlanId \<Rightarrow> nat" where
  "activeCount s cid plan = length (filter (activeFor plan) (getCustomerPurchases s cid))"

text \<open>At most one active record for every pair of a customer and a plan.\<close>

definition ledger_inv :: "BillingState \<Rightarrow> bool" where
  "ledger_inv s = (\<forall>cid plan. activeCount s cid plan \<le> 1)"

text \<open>No record of any customer has the status \<open>canceled\<close>.\<close>

definition noCanceled :: "BillingState \<Rightarrow> bool" where
  "noCanceled s = (\<forall>c. list_all (\<lambda>r. status r \<noteq> Canceled) (getCustomerPurchases s c))"

text \<open>
  The exported functions of \<open>billing.service.ts\<close> as operations on the state, to speak of
  every state the module can reach from its initial one. The three queries read the state
  and leave it as it is.
\<close>

datatype LedgerOp =
    InitProductPlanMapping Env
  | RecordPurchase string string string int
  | GetCustomerPurchases string
  | GetPurchasedPlanIds string
  | HasPurchasedPlan string PlanId
  | RevokePurchase string PlanId
  | OnSubscriptionActive string "string option" "string option" int
  | OnSubscriptionCanceled string
  | OnSubscriptionRevoked string

fun applyOp :: "LedgerOp \<Rightarrow> BillingState \<Rightarrow> BillingState" where
  "applyOp (InitProductPlanMapping env) s = initProductPlanMapping env s"
| "applyOp (RecordPurchase cid pid orderId now) s = recordPurchase s cid pid orderId now"
| "applyOp (GetCustomerPurchases cid) s = s"
| "applyOp (GetPurchasedPlanIds cid) s = s"
| "applyOp (HasPurchasedPlan cid plan) s = s"
| "applyOp (RevokePurchase cid plan) s = revokePurchase s cid plan"
| "applyOp (OnSubscriptionActive cid pid sub now) s = onSubscriptionActive s cid pid sub now"
| "applyOp (OnSubscriptionCanceled cid) s = onSubscriptionCanceled s cid"
| "applyOp (OnSubscriptionRevoked cid) s = onSubscriptionRevoked s cid"

definition run :: "LedgerOp list \<Rightarrow> BillingState \<Rightarrow> BillingState" where
  "run ops s = fold applyOp ops s"

section \<open>A concrete deployment\<close>

text \<open>
  An environment with both products and the webhook secret configured, the state after
  start-up in it, and an activation event for customer \<open>c1\<close>, the product of plan
  \<open>pro\<close> and subscription \<open>o1\<close>, with validators that accept a delivery as a
  given event or reject it.
\<close>

definition demoEnv :: Env where
  "demoEnv = [''POLAR_PRO_PRODUCT_ID'' \<mapsto> ''prod_pro'',
              ''POLAR_MASTER_PRODUCT_ID'' \<mapsto> ''prod_master'',
              ''POLAR_WEBHOOK_SECRET'' \<mapsto> ''whsec_demo'']"

definition demoState :: BillingState where
  "demoState = initProductPlanMapping demoEnv initialState"

definition demoRequest :: WebhookRequest where
  "demoRequest = \<lparr>rawBody = ''{}'',
                   reqHeaders = [''webhook-id'' \<mapsto> ''msg_1'', ''webhook-timestamp'' \<mapsto> ''1700000000'',
                                 ''webhook-signature'' \<mapsto> ''v1,sig'']\<rparr>"

definition activationEvent :: PolarEvent where
  "activationEvent = \<lparr>eventType = ''subscription.active'', dataId = ''o1'',
                       dataCustomerId = ''c1'', dataProductId = ''prod_pro''\<rparr>"

definition acceptAs :: "PolarEvent \<Rightarrow> Validator" where
  "acceptAs event body hdrs secret = Inr event"

definition rejectSignature :: Validator where
  "rejectSignature body hdrs secret = Inl (WebhookVerificationError ''No matching signature found'')"

section \<open>Facts about the ledger operations\<close>

lemma find_first_split:
  "find P xs = Some x \<Longrightarrow>
     \<exists>pre post. xs = pre @ x # post \<and> (\<forall>y\<in>set pre. \<not> P y) \<and> P x
        \<and> firstIndex P xs = length pre"
proof (induction xs)
  case Nil
  then show ?case by simp
next
  case (Cons a xs)
  show ?case
  proof (cases "P a")
    case True
    with Cons.prems have "a = x" by simp
    with True have "a # xs = [] @ x # xs \<and> (\<forall>y\<in>set []. \<not> P y) \<and> P x
        \<and> firstIndex P (a # xs) = length ([]::'a list)"
      by (simp add: firstIndex_def)
    then show ?thesis by blast
  next
    case False
    with Cons.prems have "find P xs = Some x" by simp
    from Cons.IH [OF this] obtain pre post where
      h: "xs = pre @ x # post" "\<forall>y\<in>set pre. \<not> P y" "P x" "firstIndex P xs = length pre"
      by blast
    with False have "a # xs = (a # pre) @ x # post \<and> (\<forall>y\<in>set (a # pre). \<not> P y) \<and> P x
        \<and> firstIndex P (a # xs) = length (a # pre)"
      by (simp add: firstIndex_def)
    then show ?thesis by blast
  qed
qed

lemma find_None_list_ex: "find P xs = None \<longleftrightarrow> \<not> list_ex P xs"
  by (auto simp: find_None_iff list_ex_iff)

lemma revokePurchase_none:
  "\<not> hasPurchasedPlan s cid plan \<Longrightarrow> revokePurchase s cid plan = s"
  by (simp add: revokePurchase_def hasPurchasedPlan_def find_None_list_ex [symmetric])

lemma revokePurchase_some:
  assumes "hasPurchasedPlan s cid plan"
  shows "\<exists>pre r post. getCustomerPurchases s cid = pre @ r # post
           \<and> (\<forall>y\<in>set pre. \<not> activeFor plan y) \<and> activeFor plan r
           \<and> revokePurchase s cid plan =
               s\<lparr>purchaseStore := (purchaseStore s)(cid \<mapsto> pre @ r\<lparr>status := Revoked\<rparr> # post)\<rparr>"
proof -
  from assms have "find (activeFor plan) (getCustomerPurchases s cid) \<noteq> None"
    by (simp add: hasPurchasedPlan_def find_None_list_ex)
  then obtain r where f: "find (activeFor plan) (getCustomerPurchases s cid) = Some r"
    by blast
  from find_first_split [OF f] obtain pre post where
    h: "getCustomerPurchases s cid = pre @ r # post" "\<forall>y\<in>set pre. \<not> activeFor plan y"
       "activeFor plan r" "firstIndex (activeFor plan) (getCustomerPurchases s cid) = length pre"
    by blast
  have "revokePurchase s cid plan =
          s\<lparr>purchaseStore := (purchaseStore s)(cid \<mapsto> pre @ r\<lparr>status := Revoked\<rparr> # post)\<rparr>"
    using f h by (simp add: revokePurchase_def Let_def)
  with h show ?thesis by blast
qed

lemma getCustomerPurchases_upd:
  "getCustomerPurchases (s\<lparr>purchaseStore := (purchaseStore s)(cid \<mapsto> ps)\<rparr>) c =
     (if c = cid then ps else getCustomerPurchases s c)"
  by (simp add: getCustomerPurchases_def)

lemma activeCount_upd:
  "activeCount (s\<lparr>purchaseStore := (purchaseStore s)(cid \<mapsto> ps)\<rparr>) c plan =
     (if c = cid then length (filter (activeFor plan) ps) else activeCount s c plan)"
  by (simp add: activeCount_def getCustomerPurchases_upd)

lemma hasPurchasedPlan_activeCount: "hasPurchasedPlan s cid plan \<longleftrightarrow> 0 < activeCount s cid plan"
  by (simp add: hasPurchasedPlan_def activeCount_def list_ex_iff filter_empty_conv)

lemma activeCount_revokePurchase:
  "activeCount (revokePurchase s cid plan) c q =
     (if c = cid \<and> q = plan then activeCount s cid plan - 1 else activeCount s c q)"
proof (cases "hasPurchasedPlan s cid plan")
  case False
  then show ?thesis
    by (auto simp: revokePurchase_none hasPurchasedPlan_activeCount)
next
  case True
  from revokePurchase_some [OF True] obtain pre r post where
    h: "getCustomerPurchases s cid = pre @ r # post" "\<forall>y\<in>set pre. \<not> activeFor plan y"
       "activeFor plan r"
       "revokePurchase s cid plan =
               s\<lparr>purchaseStore := (purchaseStore s)(cid \<mapsto> pre @ r\<lparr>status := Revoked\<rparr> # post)\<rparr>"
    by blast
  have a: "\<not> activeFor q (r\<lparr>status := Revoked\<rparr>)" by (simp add: activeFor_def)
  have b: "q \<noteq> plan \<Longrightarrow> \<not> activeFor q r" using h(3) by (simp add: activeFor_def)
  have c: "activeCount s cid q = length (filter (activeFor q) pre)
             + (if activeFor q r then 1 else 0) + length (filter (activeFor q) post)"
    using h(1) by (simp add: activeCount_def)
  have d: "activeCount (revokePurchase s cid plan) c q =
             (if c = cid then length (filter (activeFor q) pre) + length (filter (activeFor q) post)
              else activeCount s c q)"
    using a by (simp add: h(4) activeCount_upd)
  show ?thesis
  proof (cases "c = cid \<and> q = plan")
    case True
    then show ?thesis using c d h(3) by simp
  next
    case False
    then show ?thesis using b c d by auto
  qed
qed

lemma activeCount_recordPurchase:
  "activeCount (recordPurchase s cid pid orderId now) c q =
     (if c = cid \<and> productToPlanMap s pid = Some q \<and> \<not> hasPurchasedPlan s cid q
      then 1 else activeCount s c q)"
  by (auto simp: recordPurchase_def Let_def activeCount_upd hasPurchasedPlan_activeCount
        hasPurchasedPlan_def [symmetric] activeFor_def split: option.splits)
    (auto simp: activeCount_def activeFor_def)

lemma ledger_inv_recordPurchase: "ledger_inv s \<Longrightarrow> ledger_inv (recordPurchase s cid pid orderId now)"
  by (simp add: ledger_inv_def activeCount_recordPurchase)

lemma ledger_inv_revokePurchase: "ledger_inv s \<Longrightarrow> ledger_inv (revokePurchase s cid plan)"
proof -
  assume i: "ledger_inv s"
  have "activeCount (revokePurchase s cid plan) c q \<le> 1" for c q
    using i [unfolded ledger_inv_def, rule_format, of c q]
          i [unfolded ledger_inv_def, rule_format, of cid plan]
    by (simp add: activeCount_revokePurchase)
  then show ?thesis by (simp add: ledger_inv_def)
qed

lemma activeCount_initProductPlanMapping:
  "activeCount (initProductPlanMapping env s) c q = activeCount s c q"
  by (simp add: initProductPlanMapping_def Let_def activeCount_def getCustomerPurchases_def)

lemma ledger_inv_applyOp: "ledger_inv s \<Longrightarrow> ledger_inv (applyOp op s)"
  by (cases op)
     (simp_all add: ledger_inv_recordPurchase ledger_inv_revokePurchase onSubscriptionActive_def
        onSubscriptionCanceled_def onSubscriptionRevoked_def,
      simp add: ledger_inv_def activeCount_initProductPlanMapping)

lemma ledger_inv_initialState: "ledger_inv initialState"
  by (simp add: ledger_inv_def activeCount_def getCustomerPurchases_def initialState_def)

lemma ledger_inv_run: "ledger_inv s \<Longrightarrow> ledger_inv (run ops s)"
  unfolding run_def by (induction ops arbitrary: s) (simp_all add: ledger_inv_applyOp)

lemma recordPurchase_noop:
  "productToPlanMap s pid = Some plan \<Longrightarrow> hasPurchasedPlan s cid plan \<Longrightarrow>
     recordPurchase s cid pid orderId now = s"
  by (simp add: recordPurchase_def hasPurchasedPlan_def)

lemma productToPlanMap_recordPurchase:
  "productToPlanMap (recordPurchase s cid pid orderId now) = productToPlanMap s"
  by (simp add: recordPurchase_def Let_def split: option.splits)

lemma productToPlanMap_revokePurchase:
  "productToPlanMap (revokePurchase s cid plan) = productToPlanMap s"
  by (simp add: revokePurchase_def Let_def split: option.splits)

lemma demoState_map:
  "productToPlanMap demoState = [''prod_pro'' \<mapsto> Pro, ''prod_master'' \<mapsto> Master]"
  "purchaseStore demoState = Map.empty"
  by (simp_all add: demoState_def demoEnv_def initProductPlanMapping_def initialState_def Let_def)

lemma demoActive_eval:
  "recordPurchase demoState ''c1'' ''prod_pro'' ''o1'' 0 =
     demoState\<lparr>purchaseStore := [''c1'' \<mapsto> [\<lparr>oderId = ''o1'', customerId = ''c1'',
        productId = ''prod_pro'', planId = Pro, purchasedAt = 0, status = Active\<rparr>]]\<rparr>"
  by (simp add: recordPurchase_def demoState_map getCustomerPurchases_def Let_def)

lemma noCanceled_recordPurchase: "noCanceled s \<Longrightarrow> noCanceled (recordPurchase s cid pid orderId now)"
  by (auto simp: noCanceled_def recordPurchase_def Let_def getCustomerPurchases_upd
      split: option.splits)

lemma noCanceled_revokePurchase: "noCanceled s \<Longrightarrow> noCanceled (revokePurchase s cid plan)"
proof (cases "hasPurchasedPlan s cid plan")
  case False
  assume "noCanceled s"
  with False show ?thesis by (simp add: revokePurchase_none)
next
  case True
  assume n: "noCanceled s"
  from revokePurchase_some [OF True] obtain pre r post where
    h: "getCustomerPurchases s cid = pre @ r # post"
       "revokePurchase s cid plan =
               s\<lparr>purchaseStore := (purchaseStore s)(cid \<mapsto> pre @ r\<lparr>status := Revoked\<rparr> # post)\<rparr>"
    by blast
  from n have "list_all (\<lambda>r. status r \<noteq> Canceled) (pre @ r # post)"
    unfolding noCanceled_def h(1) [symmetric] by blast
  with n show ?thesis
    by (simp add: noCanceled_def h(2) getCustomerPurchases_upd)
qed

lemma noCanceled_applyOp: "noCanceled s \<Longrightarrow> noCanceled (applyOp op s)"
  by (cases op)
     (simp_all add: noCanceled_recordPurchase noCanceled_revokePurchase onSubscriptionActive_def
        onSubscriptionCanceled_def onSubscriptionRevoked_def,
      simp add: noCanceled_def initProductPlanMapping_def Let_def getCustomerPurchases_def)

lemma noCanceled_run: "noCanceled s \<Longrightarrow> noCanceled (run ops s)"
  unfolding run_def by (induction ops arbitrary: s) (simp_all add: noCanceled_applyOp)

lemma noCanceled_initialState: "noCanceled initialState"
  by (simp add: noCanceled_def getCustomerPurchases_def initialState_def)

lemma checkout_without_purchase_eval:
  "createCheckout (\<lambda>params. Returned ''https://sandbox.polar.sh/checkout/1'') demoEnv
        (JsonPlanId (Some ''pro'')) demoState
   = (demoState, Returned \<lparr>statusCode = 200, respBody = JsonUrl ''https://sandbox.polar.sh/checkout/1''\<rparr>,
      [\<lparr>products = [''prod_pro''], externalCustomerId = ''poc_user_001'',
         successUrl = ''http://localhost:5173/payment?status=success&plan=pro'',
         returnUrl = ''http://localhost:5173/payment?status=cancelled&plan=pro''\<rparr>])"
  by (simp add: createCheckout_def Let_def isValidPlan_def asPlanId_def hasPurchasedPlan_def
      getCustomerPurchases_def demoState_map getProductId_def demoEnv_def)

section \<open>Queries\<close>

text \<open>
  C10. For every ledger state, customer and plan, \<open>hasPurchasedPlan\<close> is true exactly when
  the plan is an element of \<open>getPurchasedPlanIds\<close>; for a customer without an entry in the
  store the first is false and the second is empty.
\<close>

theorem hasPurchasedPlan_iff_getPurchasedPlanIds:
  "(hasPurchasedPlan s cid plan \<longleftrightarrow> plan \<in> set (getPurchasedPlanIds s cid))
   \<and> (purchaseStore s cid = None \<longrightarrow>
        \<not> hasPurchasedPlan s cid plan \<and> getPurchasedPlanIds s cid = [])"
  by (auto simp: hasPurchasedPlan_def getPurchasedPlanIds_def getCustomerPurchases_def
      activeFor_def list_ex_iff)

theorem hasPurchasedPlan_iff_getPurchasedPlanIds_witness:
  "purchaseStore initialState ''nobody'' = None
   \<and> \<not> hasPurchasedPlan initialState ''nobody'' Pro
   \<and> getPurchasedPlanIds initialState ''nobody'' = []"
  using hasPurchasedPlan_iff_getPurchasedPlanIds [of initialState "''nobody''" Pro]
  by (simp add: initialState_def)

section \<open>Recording purchases\<close>

text \<open>
  C7. For every ledger state and every product id that the product map does not hold,
  \<open>recordPurchase\<close> returns the state it was given: no record is created and nothing
  is written. The function has no \<open>throw\<close> and calls nothing that throws, so its model
  is a total function without an error result. The same holds when the call comes through
  \<open>onSubscriptionActive\<close> with both optional arguments given.
\<close>

theorem recordPurchase_unknown_product:
  "productToPlanMap s pid = None \<Longrightarrow>
     recordPurchase s cid pid orderId now = s
     \<and> onSubscriptionActive s cid (Some pid) (Some orderId) now = s"
  by (simp add: recordPurchase_def onSubscriptionActive_def)

theorem recordPurchase_unknown_product_witness:
  "productToPlanMap demoState ''prod_other'' = None
   \<and> recordPurchase demoState ''c1'' ''prod_other'' ''o1'' 0 = demoState
   \<and> onSubscriptionActive demoState ''c1'' (Some ''prod_other'') (Some ''o1'') 0 = demoState"
proof -
  have h: "productToPlanMap demoState ''prod_other'' = None"
    by (simp add: demoState_map)
  from recordPurchase_unknown_product [OF h, of "''c1''" "''o1''" 0] h show ?thesis by simp
qed

text \<open>
  C2. The initial ledger has at most one active record for every pair of a customer and a
  plan, and so has every state reached from it by the operations of the module in any
  order; each operation on its own (\<open>recordPurchase\<close>, \<open>revokePurchase\<close>, and the
  others, among them the queries, which leave the state as it is) preserves the property.
  Recording a product whose plan the customer already holds active returns the state
  unchanged.
\<close>

theorem ledger_invariant:
  "ledger_inv initialState
   \<and> ledger_inv (run ops initialState)
   \<and> (ledger_inv s \<longrightarrow>
        ledger_inv (recordPurchase s cid pid orderId now)
        \<and> ledger_inv (revokePurchase s cid plan)
        \<and> ledger_inv (applyOp op s))
   \<and> (productToPlanMap s pid = Some plan \<and> hasPurchasedPlan s cid plan \<longrightarrow>
        recordPurchase s cid pid orderId now = s)"
  by (simp add: ledger_inv_initialState ledger_inv_run ledger_inv_recordPurchase
      ledger_inv_revokePurchase ledger_inv_applyOp recordPurchase_noop)

theorem ledger_invariant_witness:
  "ledger_inv (recordPurchase demoState ''c1'' ''prod_pro'' ''o1'' 0)
   \<and> ledger_inv (recordPurchase (recordPurchase demoState ''c1'' ''prod_pro'' ''o1'' 0) ''c1'' ''prod_pro'' ''o1'' 1)
   \<and> ledger_inv (revokePurchase (recordPurchase demoState ''c1'' ''prod_pro'' ''o1'' 0) ''c1'' Pro)
   \<and> productToPlanMap (recordPurchase demoState ''c1'' ''prod_pro'' ''o1'' 0) ''prod_pro'' = Some Pro
   \<and> hasPurchasedPlan (recordPurchase demoState ''c1'' ''prod_pro'' ''o1'' 0) ''c1'' Pro
   \<and> recordPurchase (recordPurchase demoState ''c1'' ''prod_pro'' ''o1'' 0) ''c1'' ''prod_pro'' ''o1'' 1
       = recordPurchase demoState ''c1'' ''prod_pro'' ''o1'' 0"
proof -
  have a: "run [InitProductPlanMapping demoEnv, RecordPurchase ''c1'' ''prod_pro'' ''o1'' 0] initialState
             = recordPurchase demoState ''c1'' ''prod_pro'' ''o1'' 0"
    by (simp add: run_def demoState_def)
  have i: "ledger_inv (recordPurchase demoState ''c1'' ''prod_pro'' ''o1'' 0)"
    using ledger_invariant [of "[InitProductPlanMapping demoEnv, RecordPurchase ''c1'' ''prod_pro'' ''o1'' 0]"]
    by (simp only: a)
  have m: "productToPlanMap (recordPurchase demoState ''c1'' ''prod_pro'' ''o1'' 0) ''prod_pro'' = Some Pro"
    by (simp add: demoActive_eval demoState_map)
  have h: "hasPurchasedPlan (recordPurchase demoState ''c1'' ''prod_pro'' ''o1'' 0) ''c1'' Pro"
    by (simp add: demoActive_eval hasPurchasedPlan_def getCustomerPurchases_def activeFor_def)
  from ledger_invariant [of "[]" "recordPurchase demoState ''c1'' ''prod_pro'' ''o1'' 0"
      "''c1''" "''prod_pro''" "''o1''" 1 Pro "RevokePurchase ''c1'' Pro"] i m h
  show ?thesis by simp
qed

text \<open>
  C3. In a ledger state with at most one active record per customer and plan (every state
  the module reaches, by the facts above), for a product that resolves to a plan: the second
  of two calls of \<open>recordPurchase\<close> with the same customer, product and order returns
  the state the first one produced, and that state has exactly one active record for the
  customer and the plan. The two calls may see different clock values.
\<close>

theorem recordPurchase_idempotent:
  assumes "ledger_inv s" and "productToPlanMap s pid = Some plan"
  shows "recordPurchase (recordPurchase s cid pid orderId now) cid pid orderId now'
           = recordPurchase s cid pid orderId now
         \<and> activeCount (recordPurchase (recordPurchase s cid pid orderId now) cid pid orderId now')
              cid plan = 1"
proof -
  let ?s1 = "recordPurchase s cid pid orderId now"
  have c: "activeCount ?s1 cid plan = 1"
  proof (cases "hasPurchasedPlan s cid plan")
    case True
    then have "0 < activeCount s cid plan" by (simp add: hasPurchasedPlan_activeCount)
    moreover have "activeCount s cid plan \<le> 1" using assms(1) by (simp add: ledger_inv_def)
    ultimately show ?thesis using True by (simp add: activeCount_recordPurchase)
  next
    case False
    then show ?thesis using assms(2) by (simp add: activeCount_recordPurchase)
  qed
  then have "hasPurchasedPlan ?s1 cid plan" by (simp add: hasPurchasedPlan_activeCount)
  moreover have "productToPlanMap ?s1 pid = Some plan"
    using assms(2) by (simp add: productToPlanMap_recordPurchase)
  ultimately have n: "recordPurchase ?s1 cid pid orderId now' = ?s1"
    by (rule recordPurchase_noop [rotated])
  with c show ?thesis by simp
qed

theorem recordPurchase_idempotent_witness:
  "ledger_inv demoState \<and> productToPlanMap demoState ''prod_pro'' = Some Pro
   \<and> recordPurchase (recordPurchase demoState ''c1'' ''prod_pro'' ''o1'' 0) ''c1'' ''prod_pro'' ''o1'' 7
       = recordPurchase demoState ''c1'' ''prod_pro'' ''o1'' 0
   \<and> activeCount (recordPurchase (recordPurchase demoState ''c1'' ''prod_pro'' ''o1'' 0)
        ''c1'' ''prod_pro'' ''o1'' 7) ''c1'' Pro = 1"
proof -
  have i: "ledger_inv demoState"
    by (simp add: ledger_inv_def activeCount_def getCustomerPurchases_def demoState_map)
  have m: "productToPlanMap demoState ''prod_pro'' = Some Pro"
    by (simp add: demoState_map)
  from recordPurchase_idempotent [OF i m, of "''c1''" "''o1''" 0 7] i m show ?thesis by blast
qed

section \<open>Revoking purchases\<close>

text \<open>
  C6. In a ledger state with at most one active record per customer and plan, for a
  product that resolves to a plan: after \<open>recordPurchase\<close> and then \<open>revokePurchase\<close>
  for the same customer and plan, \<open>hasPurchasedPlan\<close> is false; a further
  \<open>recordPurchase\<close> for the pair appends a new active record to the customer's array,
  and \<open>hasPurchasedPlan\<close> is true again.
\<close>

theorem revoke_then_record_again:
  assumes "ledger_inv s" and "productToPlanMap s pid = Some plan"
  shows "\<not> hasPurchasedPlan (revokePurchase (recordPurchase s cid pid orderId now) cid plan) cid plan
         \<and> getCustomerPurchases
              (recordPurchase (revokePurchase (recordPurchase s cid pid orderId now) cid plan)
                 cid pid orderId' now') cid
            = getCustomerPurchases (revokePurchase (recordPurchase s cid pid orderId now) cid plan) cid
              @ [\<lparr>oderId = orderId', customerId = cid, productId = pid, planId = plan,
                  purchasedAt = now', status = Active\<rparr>]
         \<and> hasPurchasedPlan
              (recordPurchase (revokePurchase (recordPurchase s cid pid orderId now) cid plan)
                 cid pid orderId' now') cid plan"
proof -
  let ?s1 = "recordPurchase s cid pid orderId now"
  let ?s2 = "revokePurchase ?s1 cid plan"
  let ?s3 = "recordPurchase ?s2 cid pid orderId' now'"
  have "ledger_inv ?s1" using assms(1) by (rule ledger_inv_recordPurchase)
  then have "activeCount ?s1 cid plan \<le> 1" by (simp add: ledger_inv_def)
  then have "activeCount ?s2 cid plan = 0" by (simp add: activeCount_revokePurchase)
  then have n: "\<not> hasPurchasedPlan ?s2 cid plan" by (simp add: hasPurchasedPlan_activeCount)
  have m: "productToPlanMap ?s2 pid = Some plan"
    using assms(2) by (simp add: productToPlanMap_revokePurchase productToPlanMap_recordPurchase)
  have a: "getCustomerPurchases ?s3 cid = getCustomerPurchases ?s2 cid
             @ [\<lparr>oderId = orderId', customerId = cid, productId = pid, planId = plan,
                 purchasedAt = now', status = Active\<rparr>]"
    using n m by (simp add: recordPurchase_def [of ?s2] hasPurchasedPlan_def getCustomerPurchases_upd)
  have "activeCount ?s3 cid plan = 1"
    using n m by (simp add: activeCount_recordPurchase [of ?s2])
  then have h: "hasPurchasedPlan ?s3 cid plan" by (simp add: hasPurchasedPlan_activeCount)
  from n a h show ?thesis by blast
qed

theorem revoke_then_record_again_witness:
  "ledger_inv demoState \<and> productToPlanMap demoState ''prod_pro'' = Some Pro
   \<and> \<not> hasPurchasedPlan (revokePurchase (recordPurchase demoState ''c1'' ''prod_pro'' ''o1'' 0) ''c1'' Pro) ''c1'' Pro
   \<and> hasPurchasedPlan
        (recordPurchase (revokePurchase (recordPurchase demoState ''c1'' ''prod_pro'' ''o1'' 0) ''c1'' Pro)
           ''c1'' ''prod_pro'' ''o2'' 9) ''c1'' Pro"
proof -
  have i: "ledger_inv demoState"
    by (simp add: ledger_inv_def activeCount_def getCustomerPurchases_def demoState_map)
  have m: "productToPlanMap demoState ''prod_pro'' = Some Pro"
    by (simp add: demoState_map)
  from revoke_then_record_again [OF i m, of "''c1''" "''o1''" 0 "''o2''" 9] i m show ?thesis by blast
qed

text \<open>
  C5, against the code. The module has \<open>revokePurchase\<close> and no \<open>cancelPurchase\<close>;
  what runs on a cancellation is the callback \<open>onSubscriptionCanceled\<close>, directly or
  through the webhook for a \<open>subscription.canceled\<close> event. With an active record for
  customer \<open>c1\<close> and plan \<open>pro\<close> in the ledger, both leave that record active:
  nothing is moved to \<open>canceled\<close>.
\<close>

theorem cancellation_keeps_record_active:
  "hasPurchasedPlan (recordPurchase demoState ''c1'' ''prod_pro'' ''o1'' 0) ''c1'' Pro
   \<and> map status (getCustomerPurchases
        (onSubscriptionCanceled (recordPurchase demoState ''c1'' ''prod_pro'' ''o1'' 0) ''c1'') ''c1'')
      = [Active]
   \<and> map status (getCustomerPurchases
        (fst (billingWebhooks
                (acceptAs \<lparr>eventType = ''subscription.canceled'', dataId = ''o1'',
                            dataCustomerId = ''c1'', dataProductId = ''prod_pro''\<rparr>)
                demoEnv demoRequest 1 (recordPurchase demoState ''c1'' ''prod_pro'' ''o1'' 0))) ''c1'')
      = [Active]"
  by (simp add: demoActive_eval hasPurchasedPlan_def getCustomerPurchases_def activeFor_def
      onSubscriptionCanceled_def billingWebhooks_def acceptAs_def routeEvent_def demoEnv_def Let_def)

text \<open>
  C5, as the code has it. \<open>revokePurchase\<close> returns the ledger unchanged when the
  customer has no active record for the plan. When there is one, the first such record of
  the customer's array gets the status \<open>revoked\<close>, and every other record, every other
  customer and the product map stay as they are. There is no operation that cancels: the
  cancellation callback returns the ledger unchanged, and in no state reached from the
  initial one does any record have the status \<open>canceled\<close>.
\<close>

theorem revokePurchase_contract:
  "(\<not> hasPurchasedPlan s cid plan \<longrightarrow> revokePurchase s cid plan = s)
   \<and> (hasPurchasedPlan s cid plan \<longrightarrow>
        (\<exists>pre r post. getCustomerPurchases s cid = pre @ r # post
           \<and> \<not> list_ex (activeFor plan) pre \<and> activeFor plan r
           \<and> revokePurchase s cid plan =
               s\<lparr>purchaseStore := (purchaseStore s)(cid \<mapsto> pre @ r\<lparr>status := Revoked\<rparr> # post)\<rparr>))
   \<and> onSubscriptionCanceled s cid = s
   \<and> list_all (\<lambda>r. status r \<noteq> Canceled) (getCustomerPurchases (run ops initialState) c)"
proof -
  have a: "hasPurchasedPlan s cid plan \<Longrightarrow>
        (\<exists>pre r post. getCustomerPurchases s cid = pre @ r # post
           \<and> \<not> list_ex (activeFor plan) pre \<and> activeFor plan r
           \<and> revokePurchase s cid plan =
               s\<lparr>purchaseStore := (purchaseStore s)(cid \<mapsto> pre @ r\<lparr>status := Revoked\<rparr> # post)\<rparr>)"
    using revokePurchase_some [of s cid plan] by (simp add: list_ex_iff)
  have "noCanceled (run ops initialState)"
    using noCanceled_initialState by (rule noCanceled_run)
  then have b: "list_all (\<lambda>r. status r \<noteq> Canceled) (getCustomerPurchases (run ops initialState) c)"
    by (simp add: noCanceled_def)
  from a b show ?thesis
    by (simp add: revokePurchase_none onSubscriptionCanceled_def)
qed

theorem revokePurchase_contract_witness:
  "hasPurchasedPlan (recordPurchase demoState ''c1'' ''prod_pro'' ''o1'' 0) ''c1'' Pro
   \<and> getCustomerPurchases
        (revokePurchase (recordPurchase demoState ''c1'' ''prod_pro'' ''o1'' 0) ''c1'' Pro) ''c1''
      = [\<lparr>oderId = ''o1'', customerId = ''c1'', productId = ''prod_pro'', planId = Pro,
          purchasedAt = 0, status = Revoked\<rparr>]
   \<and> \<not> hasPurchasedPlan demoState ''c1'' Pro
   \<and> revokePurchase demoState ''c1'' Pro = demoState"
proof -
  let ?sA = "recordPurchase demoState ''c1'' ''prod_pro'' ''o1'' 0"
  let ?r = "\<lparr>oderId = ''o1'', customerId = ''c1'', productId = ''prod_pro'', planId = Pro,
          purchasedAt = 0, status = Active\<rparr>"
  have g: "getCustomerPurchases ?sA ''c1'' = [?r]"
    by (simp add: demoActive_eval getCustomerPurchases_def)
  have h: "hasPurchasedPlan ?sA ''c1'' Pro"
    by (simp add: hasPurchasedPlan_def g activeFor_def)
  from revokePurchase_contract [of ?sA "''c1''" Pro] h obtain pre r post where
    e: "getCustomerPurchases ?sA ''c1'' = pre @ r # post"
       "revokePurchase ?sA ''c1'' Pro =
          ?sA\<lparr>purchaseStore := (purchaseStore ?sA)(''c1'' \<mapsto> pre @ r\<lparr>status := Revoked\<rparr> # post)\<rparr>"
    by blast
  from e(1) have "pre = [] \<and> r = ?r \<and> post = []"
    unfolding g by (cases pre) simp_all
  with e(2) have v: "getCustomerPurchases (revokePurchase ?sA ''c1'' Pro) ''c1'' = [?r\<lparr>status := Revoked\<rparr>]"
    by (simp add: getCustomerPurchases_upd)
  have n: "\<not> hasPurchasedPlan demoState ''c1'' Pro"
    by (simp add: hasPurchasedPlan_def getCustomerPurchases_def demoState_map)
  from revokePurchase_contract [of demoState "''c1''" Pro] n
  have "revokePurchase demoState ''c1'' Pro = demoState" by blast
  with h v n show ?thesis by simp
qed

section \<open>The webhook endpoint\<close>

text \<open>
  C4. With the webhook secret configured, for every request on which the validator throws
  a \<open>WebhookVerificationError\<close> (a body or a signature that does not verify), the handler
  answers 401 \<open>Invalid signature\<close>, calls no callback of the billing service and returns
  the ledger as it was.
\<close>

theorem verification_failure_rejected:
  assumes "truthy (env ''POLAR_WEBHOOK_SECRET'')"
    and "validateEvent (rawBody req) (webhookHeadersOf req) (the (env ''POLAR_WEBHOOK_SECRET''))
           = Inl (WebhookVerificationError msg)"
  shows "billingWebhooks validateEvent env req now s
           = (s, \<lparr>statusCode = 401, respBody = TextBody ''Invalid signature''\<rparr>, [])"
  using assms by (simp add: billingWebhooks_def Let_def)

theorem verification_failure_rejected_witness:
  "truthy (demoEnv ''POLAR_WEBHOOK_SECRET'')
   \<and> rejectSignature (rawBody demoRequest) (webhookHeadersOf demoRequest)
        (the (demoEnv ''POLAR_WEBHOOK_SECRET''))
      = Inl (WebhookVerificationError ''No matching signature found'')
   \<and> billingWebhooks rejectSignature demoEnv demoRequest 0
        (recordPurchase demoState ''c1'' ''prod_pro'' ''o1'' 0)
      = (recordPurchase demoState ''c1'' ''prod_pro'' ''o1'' 0,
         \<lparr>statusCode = 401, respBody = TextBody ''Invalid signature''\<rparr>, [])"
proof -
  have t: "truthy (demoEnv ''POLAR_WEBHOOK_SECRET'')" by (simp add: demoEnv_def)
  have r: "rejectSignature (rawBody demoRequest) (webhookHeadersOf demoRequest)
        (the (demoEnv ''POLAR_WEBHOOK_SECRET''))
      = Inl (WebhookVerificationError ''No matching signature found'')"
    by (simp add: rejectSignature_def)
  from verification_failure_rejected [where env = demoEnv and validateEvent = rejectSignature
      and req = demoRequest and now = 0
      and s = "recordPurchase demoState ''c1'' ''prod_pro'' ''o1'' 0", OF t r] t r
  show ?thesis by blast
qed

text \<open>
  C9. With the webhook secret configured, for every event that the validator accepts and
  whose type has no \<open>case\<close> in the switch, the handler answers 200 with
  \<open>{received: true}\<close>, calls no callback and returns the ledger as it was.
\<close>

theorem unknown_event_acknowledged:
  assumes "truthy (env ''POLAR_WEBHOOK_SECRET'')"
    and "validateEvent (rawBody req) (webhookHeadersOf req) (the (env ''POLAR_WEBHOOK_SECRET''))
           = Inr event"
    and "eventType event \<notin> set handledTypes"
  shows "billingWebhooks validateEvent env req now s
           = (s, \<lparr>statusCode = 200, respBody = JsonReceived True\<rparr>, [])"
  using assms by (simp add: billingWebhooks_def routeEvent_def handledTypes_def Let_def)

theorem unknown_event_acknowledged_witness:
  "truthy (demoEnv ''POLAR_WEBHOOK_SECRET'')
   \<and> acceptAs (activationEvent\<lparr>eventType := ''benefit.created''\<rparr>) (rawBody demoRequest)
        (webhookHeadersOf demoRequest) (the (demoEnv ''POLAR_WEBHOOK_SECRET''))
      = Inr (activationEvent\<lparr>eventType := ''benefit.created''\<rparr>)
   \<and> eventType (activationEvent\<lparr>eventType := ''benefit.created''\<rparr>) \<notin> set handledTypes
   \<and> billingWebhooks (acceptAs (activationEvent\<lparr>eventType := ''benefit.created''\<rparr>))
        demoEnv demoRequest 0 demoState
      = (demoState, \<lparr>statusCode = 200, respBody = JsonReceived True\<rparr>, [])"
proof -
  have t: "truthy (demoEnv ''POLAR_WEBHOOK_SECRET'')" by (simp add: demoEnv_def)
  have r: "acceptAs (activationEvent\<lparr>eventType := ''benefit.created''\<rparr>) (rawBody demoRequest)
        (webhookHeadersOf demoRequest) (the (demoEnv ''POLAR_WEBHOOK_SECRET''))
      = Inr (activationEvent\<lparr>eventType := ''benefit.created''\<rparr>)"
    by (simp add: acceptAs_def)
  have u: "eventType (activationEvent\<lparr>eventType := ''benefit.created''\<rparr>) \<notin> set handledTypes"
    by (simp add: handledTypes_def)
  from unknown_event_acknowledged [where env = demoEnv
      and validateEvent = "acceptAs (activationEvent\<lparr>eventType := ''benefit.created''\<rparr>)"
      and req = demoRequest and now = 0 and s = demoState, OF t r u] t r u
  show ?thesis by blast
qed

text \<open>
  C1, evaluated on the code. The product map sends \<open>prod_pro\<close> to plan \<open>pro\<close>, and the
  validator accepts the delivery as the activation event of customer \<open>c1\<close>, product
  \<open>prod_pro\<close> and subscription \<open>o1\<close>. The handler acknowledges with 200 and calls
  \<open>onSubscriptionActive\<close>, but with the customer id alone, so the callback does not reach
  \<open>recordPurchase\<close>: the ledger is unchanged, \<open>hasPurchasedPlan\<close> is false for
  \<open>(c1, pro)\<close>, and after a second delivery the pair has no active record. The callback
  given the product and the subscription id of the same event does record the purchase.
\<close>

theorem activation_event_not_recorded:
  "billingWebhooks (acceptAs activationEvent) demoEnv demoRequest 0 demoState
     = (demoState, \<lparr>statusCode = 200, respBody = JsonReceived True\<rparr>, [''onSubscriptionActive''])
   \<and> productToPlanMap demoState (dataProductId activationEvent) = Some Pro
   \<and> hasPurchasedPlan
        (fst (billingWebhooks (acceptAs activationEvent) demoEnv demoRequest 0 demoState))
        ''c1'' Pro = False
   \<and> activeCount
        (fst (billingWebhooks (acceptAs activationEvent) demoEnv demoRequest 1
           (fst (billingWebhooks (acceptAs activationEvent) demoEnv demoRequest 0 demoState))))
        ''c1'' Pro = 0
   \<and> hasPurchasedPlan
        (onSubscriptionActive demoState (dataCustomerId activationEvent)
           (Some (dataProductId activationEvent)) (Some (dataId activationEvent)) 0)
        ''c1'' Pro = True"
proof -
  have w: "billingWebhooks (acceptAs activationEvent) demoEnv demoRequest now demoState
     = (demoState, \<lparr>statusCode = 200, respBody = JsonReceived True\<rparr>, [''onSubscriptionActive''])"
    for now
    by (simp add: billingWebhooks_def acceptAs_def routeEvent_def activationEvent_def
        onSubscriptionActive_def demoEnv_def Let_def)
  have n: "hasPurchasedPlan demoState ''c1'' Pro = False" "activeCount demoState ''c1'' Pro = 0"
    by (simp_all add: hasPurchasedPlan_def activeCount_def getCustomerPurchases_def demoState_map)
  have m: "productToPlanMap demoState (dataProductId activationEvent) = Some Pro"
    by (simp add: activationEvent_def demoState_map)
  have a: "hasPurchasedPlan
        (onSubscriptionActive demoState (dataCustomerId activationEvent)
           (Some (dataProductId activationEvent)) (Some (dataId activationEvent)) 0)
        ''c1'' Pro = True"
    by (simp add: onSubscriptionActive_def activationEvent_def demoActive_eval
        hasPurchasedPlan_def getCustomerPurchases_def activeFor_def)
  show ?thesis by (simp only: w fst_conv n m a simp_thms)
qed

section \<open>The checkout endpoint\<close>

text \<open>
  C8. For every checkout request that names a valid plan for which the customer of the
  endpoint (the constant \<open>poc_user_001\<close>) holds an active record, the handler answers
  400 with the error \<open>You have already purchased this plan\<close>, makes no call to the
  provider and returns the ledger as it was; the response differs from the one for an
  invalid plan.
\<close>

theorem duplicate_checkout_rejected:
  assumes "isValidPlan p" and "hasPurchasedPlan s ''poc_user_001'' (asPlanId p)"
  shows "createCheckout checkoutsCreate env (JsonPlanId (Some p)) s
           = (s, Returned \<lparr>statusCode = 400,
                            respBody = JsonError ''You have already purchased this plan''\<rparr>, [])
         \<and> fst (snd (createCheckout checkoutsCreate env (JsonPlanId (Some p)) s))
             \<noteq> fst (snd (createCheckout checkoutsCreate env (JsonPlanId None) s))"
  using assms by (simp add: createCheckout_def Let_def)

theorem duplicate_checkout_rejected_witness:
  "isValidPlan ''pro''
   \<and> hasPurchasedPlan (recordPurchase demoState ''poc_user_001'' ''prod_pro'' ''o1'' 0)
        ''poc_user_001'' (asPlanId ''pro'')
   \<and> createCheckout (\<lambda>params. Returned ''https://sandbox.polar.sh/checkout/1'') demoEnv
        (JsonPlanId (Some ''pro'')) (recordPurchase demoState ''poc_user_001'' ''prod_pro'' ''o1'' 0)
      = (recordPurchase demoState ''poc_user_001'' ''prod_pro'' ''o1'' 0,
         Returned \<lparr>statusCode = 400,
                    respBody = JsonError ''You have already purchased this plan''\<rparr>, [])"
proof -
  have v: "isValidPlan ''pro''" by (simp add: isValidPlan_def)
  have h: "hasPurchasedPlan (recordPurchase demoState ''poc_user_001'' ''prod_pro'' ''o1'' 0)
        ''poc_user_001'' (asPlanId ''pro'')"
    by (simp add: recordPurchase_def demoState_map getCustomerPurchases_def Let_def
        hasPurchasedPlan_def activeFor_def asPlanId_def)
  from duplicate_checkout_rejected [OF v h,
      of "\<lambda>params. Returned ''https://sandbox.polar.sh/checkout/1''" demoEnv] v h
  show ?thesis by blast
qed

end
